theory Spec2Isabelle
  imports Main "HOL-Library.Word"
begin

section \<open>Python values that reach the session module\<close>

text \<open>
  The module \<open>lotus/python/session.py\<close> holds one class, \<open>InferenceSession\<close>, a thin layer
  over the native binding imported as \<open>C\<close>. Its constructor inspects the runtime class of
  its first argument, so that argument is modelled as a Python value: an instance of one of
  the built-in classes below, or of some other class (\<open>PObj\<close>, with the class's name and
  an object identity). Instances of subclasses of \<open>str\<close>, \<open>bytes\<close> and \<open>tuple\<close> are not
  modelled.
\<close>

datatype pyval =
    PNone
  | PBool bool
  | PInt int
  | PStr string
  | PBytes "8 word list"
  | PByteArray "8 word list"
  | PTuple "pyval list"
  | PList "pyval list"
  | PDict "(pyval \<times> pyval) list"
  | PObj string nat

datatype pyclass =
    NoneType_c | bool_c | int_c | str_c | bytes_c | bytearray_c | tuple_c | list_c | dict_c
  | Class string

fun type_of :: "pyval \<Rightarrow> pyclass" where
  "type_of PNone = NoneType_c"
| "type_of (PBool _) = bool_c"
| "type_of (PInt _) = int_c"
| "type_of (PStr _) = str_c"
| "type_of (PBytes _) = bytes_c"
| "type_of (PByteArray _) = bytearray_c"
| "type_of (PTuple _) = tuple_c"
| "type_of (PList _) = list_c"
| "type_of (PDict _) = dict_c"
| "type_of (PObj c _) = Class c"

fun class_name :: "pyclass \<Rightarrow> string" where
  "class_name NoneType_c = ''NoneType''"
| "class_name bool_c = ''bool''"
| "class_name int_c = ''int''"
| "class_name str_c = ''str''"
| "class_name bytes_c = ''bytes''"
| "class_name bytearray_c = ''bytearray''"
| "class_name tuple_c = ''tuple''"
| "class_name list_c = ''list''"
| "class_name dict_c = ''dict''"
| "class_name (Class c) = c"

text \<open>What \<open>'{0}'.format(cls)\<close> prints for a class: \<open><class 'int'>\<close>.\<close>

definition format_class :: "pyclass \<Rightarrow> string" where
  "format_class c = ''<class '' @ [CHR 0x27] @ class_name c @ [CHR 0x27] @ ''>''"

text \<open>
  \<open>isinstance(v, cls)\<close> for the three classes the constructor tests. \<open>bool\<close> is a
  subclass of \<open>int\<close> and of none of the three, so on the values above the test is
  equality of the class.
\<close>

definition isinstance :: "pyval \<Rightarrow> pyclass \<Rightarrow> bool" where
  "isinstance v c = (type_of v = c)"

text \<open>What \<open>'{}'.format(n)\<close> prints for the result of \<open>len\<close>: the decimal digits.\<close>

definition digit :: "nat \<Rightarrow> char" where
  "digit d = ''0123456789'' ! d"

fun format_nat :: "nat \<Rightarrow> string" where
  "format_nat n = (if n < 10 then [digit n] else format_nat (n div 10) @ [digit (n mod 10)])"

declare format_nat.simps [simp del]

section \<open>Exceptions\<close>

text \<open>
  The module raises \<open>TypeError\<close> and \<open>ValueError\<close> itself; indexing a tuple raises
  \<open>IndexError\<close>; whatever the native engine raises is the opaque \<open>EngineError\<close>.
\<close>

datatype 'x exn =
    TypeError string
  | ValueError string
  | IndexError string
  | EngineError 'x

section \<open>The native binding \<open>C\<close>\<close>

text \<open>
  One declared input or output of a model, as the engine reports it. The module reads
  only \<open>name\<close>.
\<close>

record node_arg =
  name :: string
  type_tag :: string
  shape :: "int option list"

text \<open>
  The binding is not part of the module: it is a parameter of the model. \<open>'e\<close> is the
  state of one native engine object, \<open>'o\<close> the values given as session options, \<open>'i\<close> what
  \<open>C.get_session_initializer()\<close> returns, \<open>'m\<close> the model metadata, \<open>'v\<close> a tensor value,
  \<open>'r\<close> the run options and \<open>'x\<close> what the engine raises. A method of the engine object
  takes the engine's state and returns its outcome with the state after the call; a method
  that returns nothing gives \<open>None\<close>, or \<open>Some x\<close> when it raises \<open>x\<close>. The first argument of
  \<open>C.InferenceSession\<close> is either session options or a session initializer.
  \<open>options_truth\<close> is Python's truth test on a value given as session options, what
  \<open>bool(sess_options)\<close> returns: the result of the \<open>__bool__\<close> of its class, or whether its
  \<open>__len__\<close> is not zero, or true when its class defines neither.
\<close>

record ('e, 'o, 'i, 'm, 'v, 'r, 'x) binding =
  options_truth :: "'o \<Rightarrow> bool"
  C_get_session_initializer :: 'i
  C_InferenceSession :: "'o + 'i \<Rightarrow> 'i \<Rightarrow> 'e"
  C_load_model :: "string \<Rightarrow> 'e \<Rightarrow> 'x option \<times> 'e"
  C_read_bytes :: "8 word list \<Rightarrow> 'e \<Rightarrow> 'x option \<times> 'e"
  C_load_model_no_init :: "pyval \<Rightarrow> 'e \<Rightarrow> 'x option \<times> 'e"
  C_inputs_meta :: "'e \<Rightarrow> node_arg list"
  C_outputs_meta :: "'e \<Rightarrow> node_arg list"
  C_model_meta :: "'e \<Rightarrow> 'm"
  C_run :: "string list \<Rightarrow> (string \<times> 'v) list \<Rightarrow> 'r option \<Rightarrow> 'e \<Rightarrow> ('x + 'v list) \<times> 'e"
  C_end_profiling :: "'e \<Rightarrow> ('x + string) \<times> 'e"

text \<open>
  To say which calls reach the engine, the engine object is kept with the list of the
  method calls and attribute reads it has received, oldest first.
\<close>

datatype ('v, 'r) call =
    Load_model string
  | Read_bytes "8 word list"
  | Load_model_no_init pyval
  | Inputs_meta
  | Outputs_meta
  | Model_meta
  | Run "string list" "(string \<times> 'v) list" "'r option"
  | End_profiling

record ('e, 'v, 'r) engine =
  state :: 'e
  calls :: "('v, 'r) call list"

text \<open>The three calls that load a model.\<close>

fun is_load :: "('v, 'r) call \<Rightarrow> bool" where
  "is_load (Load_model _) = True"
| "is_load (Read_bytes _) = True"
| "is_load (Load_model_no_init _) = True"
| "is_load _ = False"

fun is_run :: "('v, 'r) call \<Rightarrow> bool" where
  "is_run (Run _ _ _) = True"
| "is_run _ = False"

definition called :: "('e, 'v, 'r) engine \<Rightarrow> ('v, 'r) call \<Rightarrow> 'e \<Rightarrow> ('e, 'v, 'r) engine" where
  "called h c e = \<lparr>state = e, calls = calls h @ [c]\<rparr>"

definition sess_load_model ::
  "('e, 'o, 'i, 'm, 'v, 'r, 'x) binding \<Rightarrow> string \<Rightarrow> ('e, 'v, 'r) engine
    \<Rightarrow> 'x option \<times> ('e, 'v, 'r) engine" where
  "sess_load_model C p h =
     (case C_load_model C p (state h) of (r, e) \<Rightarrow> (r, called h (Load_model p) e))"

definition sess_read_bytes ::
  "('e, 'o, 'i, 'm, 'v, 'r, 'x) binding \<Rightarrow> 8 word list \<Rightarrow> ('e, 'v, 'r) engine
    \<Rightarrow> 'x option \<times> ('e, 'v, 'r) engine" where
  "sess_read_bytes C b h =
     (case C_read_bytes C b (state h) of (r, e) \<Rightarrow> (r, called h (Read_bytes b) e))"

definition sess_load_model_no_init ::
  "('e, 'o, 'i, 'm, 'v, 'r, 'x) binding \<Rightarrow> pyval \<Rightarrow> ('e, 'v, 'r) engine
    \<Rightarrow> 'x option \<times> ('e, 'v, 'r) engine" where
  "sess_load_model_no_init C t h =
     (case C_load_model_no_init C t (state h) of (r, e) \<Rightarrow> (r, called h (Load_model_no_init t) e))"

definition sess_inputs_meta ::
  "('e, 'o, 'i, 'm, 'v, 'r, 'x) binding \<Rightarrow> ('e, 'v, 'r) engine
    \<Rightarrow> node_arg list \<times> ('e, 'v, 'r) engine" where
  "sess_inputs_meta C h = (C_inputs_meta C (state h), called h Inputs_meta (state h))"

definition sess_outputs_meta ::
  "('e, 'o, 'i, 'm, 'v, 'r, 'x) binding \<Rightarrow> ('e, 'v, 'r) engine
    \<Rightarrow> node_arg list \<times> ('e, 'v, 'r) engine" where
  "sess_outputs_meta C h = (C_outputs_meta C (state h), called h Outputs_meta (state h))"

definition sess_model_meta ::
  "('e, 'o, 'i, 'm, 'v, 'r, 'x) binding \<Rightarrow> ('e, 'v, 'r) engine
    \<Rightarrow> 'm \<times> ('e, 'v, 'r) engine" where
  "sess_model_meta C h = (C_model_meta C (state h), called h Model_meta (state h))"

definition sess_run ::
  "('e, 'o, 'i, 'm, 'v, 'r, 'x) binding \<Rightarrow> string list \<Rightarrow> (string \<times> 'v) list \<Rightarrow> 'r option
    \<Rightarrow> ('e, 'v, 'r) engine \<Rightarrow> ('x + 'v list) \<times> ('e, 'v, 'r) engine" where
  "sess_run C ns feed ro h =
     (case C_run C ns feed ro (state h) of (r, e) \<Rightarrow> (r, called h (Run ns feed ro) e))"

definition sess_end_profiling ::
  "('e, 'o, 'i, 'm, 'v, 'r, 'x) binding \<Rightarrow> ('e, 'v, 'r) engine
    \<Rightarrow> ('x + string) \<times> ('e, 'v, 'r) engine" where
  "sess_end_profiling C h =
     (case C_end_profiling C (state h) of (r, e) \<Rightarrow> (r, called h End_profiling e))"

section \<open>The class \<open>InferenceSession\<close>\<close>

text \<open>
  An instance holds the engine object \<open>_sess\<close> and the three attributes read from it by
  the constructor (the leading underscore of the attribute names is dropped).
\<close>

record ('e, 'm, 'v, 'r) session =
  sess :: "('e, 'v, 'r) engine"
  inputs_meta :: "node_arg list"
  outputs_meta :: "node_arg list"
  model_meta :: 'm

text \<open>
  Lines 24 to 29 of \<open>__init__\<close>. The argument \<open>sess_options\<close> is \<open>None\<close> (the default) or
  a value given as session options. The test \<open>if sess_options:\<close> is Python's truth test,
  not a test of presence: \<open>None\<close> is false, and a given value is as true as
  \<open>options_truth\<close> says. A given value that is false takes the branch of line 28, as \<open>None\<close>
  does, and is passed to nothing.
\<close>

definition new_sess ::
  "('e, 'o, 'i, 'm, 'v, 'r, 'x) binding \<Rightarrow> 'o option \<Rightarrow> ('e, 'v, 'r) engine" where
  "new_sess C sess_options =
     (case sess_options of
        Some so \<Rightarrow>
          if options_truth C so
          then \<lparr>state = C_InferenceSession C (Inl so) (C_get_session_initializer C), calls = []\<rparr>
          else \<lparr>state = C_InferenceSession C (Inr (C_get_session_initializer C))
                          (C_get_session_initializer C),
                calls = []\<rparr>
      | None \<Rightarrow>
          \<lparr>state = C_InferenceSession C (Inr (C_get_session_initializer C))
                     (C_get_session_initializer C),
           calls = []\<rparr>)"

text \<open>
  Lines 31 to 39: the chain of \<open>isinstance\<close> tests, in the source's order. The result is
  the exception raised, if any, and the engine object after the call. \<open>path_or_bytes[0]\<close>
  raises \<open>IndexError\<close> on the empty tuple, before any call of the engine.
\<close>

definition unable_to_load :: "pyval \<Rightarrow> string" where
  "unable_to_load v =
     ''Unable to load from type '' @ [CHR 0x27] @ format_class (type_of v) @ [CHR 0x27]"

definition raised :: "'x option \<Rightarrow> 'x exn option" where
  "raised r = map_option EngineError r"

fun load ::
  "('e, 'o, 'i, 'm, 'v, 'r, 'x) binding \<Rightarrow> pyval \<Rightarrow> ('e, 'v, 'r) engine
    \<Rightarrow> 'x exn option \<times> ('e, 'v, 'r) engine" where
  "load C (PStr p) h = (case sess_load_model C p h of (r, h') \<Rightarrow> (raised r, h'))"
| "load C (PBytes b) h = (case sess_read_bytes C b h of (r, h') \<Rightarrow> (raised r, h'))"
| "load C (PTuple []) h = (Some (IndexError ''tuple index out of range''), h)"
| "load C (PTuple (t # ts)) h =
     (case sess_load_model_no_init C t h of (r, h') \<Rightarrow> (raised r, h'))"
| "load C v h = (Some (TypeError (unable_to_load v)), h)"

text \<open>
  Lines 31 to 42, on the engine object built by lines 24 to 29: after a load that returns,
  the three attributes of the engine are read and stored. The result is the new instance
  when the constructor returns, the exception when it raises, and in both cases the engine
  object as the constructor leaves it.
\<close>

definition init_on ::
  "('e, 'o, 'i, 'm, 'v, 'r, 'x) binding \<Rightarrow> pyval \<Rightarrow> ('e, 'v, 'r) engine
    \<Rightarrow> ('x exn + ('e, 'm, 'v, 'r) session) \<times> ('e, 'v, 'r) engine" where
  "init_on C path_or_bytes h0 =
     (case load C path_or_bytes h0 of
        (Some ex, h) \<Rightarrow> (Inl ex, h)
      | (None, h) \<Rightarrow>
          (case sess_inputs_meta C h of (im, h1) \<Rightarrow>
           case sess_outputs_meta C h1 of (om, h2) \<Rightarrow>
           case sess_model_meta C h2 of (mm, h3) \<Rightarrow>
             (Inr \<lparr>sess = h3, inputs_meta = im, outputs_meta = om, model_meta = mm\<rparr>, h3)))"

text \<open>The whole of \<open>__init__\<close>.\<close>

definition init ::
  "('e, 'o, 'i, 'm, 'v, 'r, 'x) binding \<Rightarrow> pyval \<Rightarrow> 'o option
    \<Rightarrow> ('x exn + ('e, 'm, 'v, 'r) session) \<times> ('e, 'v, 'r) engine" where
  "init C path_or_bytes sess_options = init_on C path_or_bytes (new_sess C sess_options)"

text \<open>Lines 44 to 54: the three accessors return the attributes.\<close>

definition get_inputs :: "('e, 'm, 'v, 'r) session \<Rightarrow> node_arg list" where
  "get_inputs s = inputs_meta s"

definition get_outputs :: "('e, 'm, 'v, 'r) session \<Rightarrow> node_arg list" where
  "get_outputs s = outputs_meta s"

definition get_modelmeta :: "('e, 'm, 'v, 'r) session \<Rightarrow> 'm" where
  "get_modelmeta s = model_meta s"

text \<open>
  Lines 69 to 75 of \<open>run\<close>. \<open>input_feed\<close> is a dictionary: its entries in insertion order,
  and \<open>len\<close> counts them. \<open>output_names\<close> is \<open>None\<close> or a list of names; \<open>not output_names\<close>
  holds of \<open>None\<close> and of the empty list.
\<close>

definition input_count_message :: "nat \<Rightarrow> nat \<Rightarrow> string" where
  "input_count_message num_required_inputs num_inputs =
     ''Model requires '' @ format_nat num_required_inputs
       @ '' inputs. Input Feed contains '' @ format_nat num_inputs"

fun resolve_output_names :: "node_arg list \<Rightarrow> string list option \<Rightarrow> string list" where
  "resolve_output_names om None = map name om"
| "resolve_output_names om (Some []) = map name om"
| "resolve_output_names om (Some (n # ns)) = n # ns"

definition run ::
  "('e, 'o, 'i, 'm, 'v, 'r, 'x) binding \<Rightarrow> ('e, 'm, 'v, 'r) session \<Rightarrow> string list option
    \<Rightarrow> (string \<times> 'v) list \<Rightarrow> 'r option \<Rightarrow> ('x exn + 'v list) \<times> ('e, 'm, 'v, 'r) session" where
  "run C s output_names input_feed run_options =
     (let num_required_inputs = length (inputs_meta s);
          num_inputs = length input_feed
      in if num_inputs \<noteq> num_required_inputs
         then (Inl (ValueError (input_count_message num_required_inputs num_inputs)), s)
         else (case sess_run C (resolve_output_names (outputs_meta s) output_names)
                      input_feed run_options (sess s) of
                 (Inl x, h) \<Rightarrow> (Inl (EngineError x), s\<lparr>sess := h\<rparr>)
               | (Inr res, h) \<Rightarrow> (Inr res, s\<lparr>sess := h\<rparr>)))"

text \<open>Lines 77 to 79.\<close>

definition end_profiling ::
  "('e, 'o, 'i, 'm, 'v, 'r, 'x) binding \<Rightarrow> ('e, 'm, 'v, 'r) session
    \<Rightarrow> ('x exn + string) \<times> ('e, 'm, 'v, 'r) session" where
  "end_profiling C s =
     (case sess_end_profiling C (sess s) of
        (Inl x, h) \<Rightarrow> (Inl (EngineError x), s\<lparr>sess := h\<rparr>)
      | (Inr p, h) \<Rightarrow> (Inr p, s\<lparr>sess := h\<rparr>))"

section \<open>A client's calls on one instance\<close>

text \<open>
  The five methods as requests, so that a property of every later operation can be stated
  over any sequence of calls a client makes on an instance.
\<close>

datatype ('v, 'r) request =
    Get_inputs
  | Get_outputs
  | Get_modelmeta
  | Run_request "string list option" "(string \<times> 'v) list" "'r option"
  | End_profiling_request

datatype ('m, 'v) reply =
    Descriptors "node_arg list"
  | Metadata 'm
  | Results "'v list"
  | Profile string

fun perform ::
  "('e, 'o, 'i, 'm, 'v, 'r, 'x) binding \<Rightarrow> ('e, 'm, 'v, 'r) session \<Rightarrow> ('v, 'r) request
    \<Rightarrow> ('x exn + ('m, 'v) reply) \<times> ('e, 'm, 'v, 'r) session" where
  "perform C s Get_inputs = (Inr (Descriptors (get_inputs s)), s)"
| "perform C s Get_outputs = (Inr (Descriptors (get_outputs s)), s)"
| "perform C s Get_modelmeta = (Inr (Metadata (get_modelmeta s)), s)"
| "perform C s (Run_request ns feed ro) =
     (case run C s ns feed ro of (r, s') \<Rightarrow> (map_sum id Results r, s'))"
| "perform C s End_profiling_request =
     (case end_profiling C s of (r, s') \<Rightarrow> (map_sum id Profile r, s'))"

fun perform_all ::
  "('e, 'o, 'i, 'm, 'v, 'r, 'x) binding \<Rightarrow> ('e, 'm, 'v, 'r) session \<Rightarrow> ('v, 'r) request list
    \<Rightarrow> ('e, 'm, 'v, 'r) session" where
  "perform_all C s [] = s"
| "perform_all C s (q # qs) = perform_all C (snd (perform C s q)) qs"

section \<open>A small engine to run the model on\<close>

text \<open>
  A binding for concrete runs: one model file, one input \<open>x\<close>, two outputs \<open>y\<close> (the input)
  and \<open>z\<close> (twice the input). Its session options are a thread count, an integer, which is
  false when it is zero. The engine's state is a counter that starts at zero when the engine
  is built from the initializer and at one more than the thread count when it is built
  from options, and that each completed run increases; the engine rejects any other file,
  an empty byte string, the token \<open>None\<close>, a feed whose names are not the declared ones,
  and the end of a profiling that was never started.
\<close>

definition toy_inputs :: "node_arg list" where
  "toy_inputs = [\<lparr>name = ''x'', type_tag = ''tensor(int64)'', shape = [None, Some 1]\<rparr>]"

definition toy_outputs :: "node_arg list" where
  "toy_outputs =
     [\<lparr>name = ''y'', type_tag = ''tensor(int64)'', shape = [None, Some 1]\<rparr>,
      \<lparr>name = ''z'', type_tag = ''tensor(int64)'', shape = [None, Some 1]\<rparr>]"

definition toy_output :: "int \<Rightarrow> string \<Rightarrow> int" where
  "toy_output x n = (if n = ''y'' then x else 2 * x)"

definition toy :: "(nat, nat, unit, string, int, unit, string) binding" where
  "toy =
     \<lparr>options_truth = (\<lambda>threads. threads \<noteq> 0),
      C_get_session_initializer = (),
      C_InferenceSession = (\<lambda>a i. case a of Inl threads \<Rightarrow> Suc threads | Inr _ \<Rightarrow> 0),
      C_load_model = (\<lambda>p e. if p = ''model.onnx'' then (None, e) else (Some ''no such file'', e)),
      C_read_bytes = (\<lambda>b e. if b = [] then (Some ''empty model'', e) else (None, e)),
      C_load_model_no_init = (\<lambda>t e. if t = PNone then (Some ''not a model'', e) else (None, e)),
      C_inputs_meta = (\<lambda>e. toy_inputs),
      C_outputs_meta = (\<lambda>e. toy_outputs),
      C_model_meta = (\<lambda>e. ''toy model''),
      C_run = (\<lambda>ns feed ro e.
        case feed of
          [(k, x)] \<Rightarrow>
            if k = ''x'' then (Inr (map (toy_output x) ns), Suc e)
            else (Inl ''invalid feed input name'', e)
        | _ \<Rightarrow> (Inl ''invalid feed'', e)),
      C_end_profiling = (\<lambda>e. (Inl ''profiling is not enabled'', e))\<rparr>"

definition toy_session :: "(nat, string, int, unit) session" where
  "toy_session =
     \<lparr>sess = \<lparr>state = 0, calls = [Load_model ''model.onnx'', Inputs_meta, Outputs_meta, Model_meta]\<rparr>,
      inputs_meta = toy_inputs, outputs_meta = toy_outputs, model_meta = ''toy model''\<rparr>"

section \<open>Facts about the formatted messages\<close>

text \<open>
  The decimal digits of a number determine it, and contain no space; so the message of the
  input count error determines both counts it was built from.
\<close>

lemma digit_inject: "a < 10 \<Longrightarrow> b < 10 \<Longrightarrow> digit a = digit b \<Longrightarrow> a = b"
proof -
  assume a: "a < 10" and b: "b < 10" and e: "digit a = digit b"
  have d: "distinct ''0123456789''" by simp
  from a b e show "a = b"
    unfolding digit_def using d nth_eq_iff_index_eq [OF d, of a b] by simp
qed

lemma digit_no_space: "d < 10 \<Longrightarrow> digit d \<noteq> CHR '' ''"
proof -
  assume "d < 10"
  then have "digit d \<in> set ''0123456789''"
    unfolding digit_def by (intro nth_mem) simp
  then show ?thesis by auto
qed

lemma format_nat_length: "0 < length (format_nat n)"
  by (subst format_nat.simps) simp

lemma format_nat_no_space: "CHR '' '' \<notin> set (format_nat n)"
proof (induction n rule: format_nat.induct)
  case (1 n)
  show ?case
  proof (cases "n < 10")
    case True
    then show ?thesis using digit_no_space [of n] by (subst format_nat.simps) auto
  next
    case False
    then show ?thesis using "1.IH" digit_no_space [of "n mod 10"]
      by (subst format_nat.simps) auto
  qed
qed

lemma format_nat_inject: "format_nat m = format_nat n \<Longrightarrow> m = n"
proof (induction m arbitrary: n rule: format_nat.induct)
  case (1 m)
  have lm: "\<not> m < 10 \<Longrightarrow> format_nat m = format_nat (m div 10) @ [digit (m mod 10)]"
    by (subst format_nat.simps) simp
  have ln: "\<not> n < 10 \<Longrightarrow> format_nat n = format_nat (n div 10) @ [digit (n mod 10)]"
    by (subst format_nat.simps) simp
  have sm: "m < 10 \<Longrightarrow> format_nat m = [digit m]" by (subst format_nat.simps) simp
  have sn: "n < 10 \<Longrightarrow> format_nat n = [digit n]" by (subst format_nat.simps) simp
  show ?case
  proof (cases "m < 10")
    case True
    show ?thesis
    proof (cases "n < 10")
      case n: True
      with True "1.prems" sm sn show ?thesis by (auto dest: digit_inject)
    next
      case n: False
      from "1.prems" sm [OF True] ln [OF n] format_nat_length [of "n div 10"]
      show ?thesis by (cases "format_nat (n div 10)") auto
    qed
  next
    case False
    show ?thesis
    proof (cases "n < 10")
      case n: True
      from "1.prems" lm [OF False] sn [OF n] format_nat_length [of "m div 10"]
      show ?thesis by (cases "format_nat (m div 10)") auto
    next
      case n: False
      from "1.prems" lm [OF False] ln [OF n]
      have q: "format_nat (m div 10) = format_nat (n div 10)"
        and r: "digit (m mod 10) = digit (n mod 10)" by auto
      from "1.IH" [OF False q] have "m div 10 = n div 10" .
      moreover from r have "m mod 10 = n mod 10"
        by (rule digit_inject [rotated 2]) simp_all
      ultimately show ?thesis by (metis div_mult_mod_eq)
    qed
  qed
qed

lemma takeWhile_format_nat:
  "takeWhile (\<lambda>c. c \<noteq> CHR '' '') (format_nat n @ CHR '' '' # r) = format_nat n"
proof -
  have "\<forall>c \<in> set (format_nat n). c \<noteq> CHR '' ''"
    using format_nat_no_space [of n] by blast
  then show ?thesis by (simp add: takeWhile_tail)
qed

lemma input_count_message_inject:
  assumes "input_count_message n m = input_count_message n' m'"
  shows "n = n' \<and> m = m'"
proof -
  let ?mid = "''inputs. Input Feed contains ''"
  from assms have e: "format_nat n @ CHR '' '' # ?mid @ format_nat m
      = format_nat n' @ CHR '' '' # ?mid @ format_nat m'"
    by (simp add: input_count_message_def)
  then have "takeWhile (\<lambda>c. c \<noteq> CHR '' '') (format_nat n @ CHR '' '' # ?mid @ format_nat m)
      = takeWhile (\<lambda>c. c \<noteq> CHR '' '') (format_nat n' @ CHR '' '' # ?mid @ format_nat m')"
    by (rule arg_cong)
  then have f: "format_nat n = format_nat n'"
    by (simp only: takeWhile_format_nat)
  with e have "format_nat m = format_nat m'" by simp
  with f show ?thesis by (auto dest: format_nat_inject)
qed

section \<open>Facts shared by the properties below\<close>

lemma resolve_output_names_all:
  "resolve_output_names om (Some (map name om)) = map name om"
  by (cases om) simp_all

lemma loads_of_init_on:
  assumes "load C v h0 = (r, h)" and "calls h0 = []"
  shows "filter is_load (calls (snd (init_on C v h0))) = filter is_load (calls h)"
  using assms
  by (cases r)
     (simp_all add: init_on_def sess_inputs_meta_def sess_outputs_meta_def sess_model_meta_def
        called_def)

lemma calls_new_sess: "calls (new_sess C sess_options) = []"
  by (simp add: new_sess_def split: option.splits)

lemma init_on_snapshots:
  assumes "init_on C v h0 = (Inr s, h)"
  shows "sess s = h \<and> inputs_meta s = C_inputs_meta C (state h)
         \<and> outputs_meta s = C_outputs_meta C (state h) \<and> model_meta s = C_model_meta C (state h)"
  using assms
  by (auto simp: init_on_def sess_inputs_meta_def sess_outputs_meta_def sess_model_meta_def
      called_def split: prod.splits option.splits)

lemma run_keeps_snapshots:
  "inputs_meta (snd (run C s ns feed ro)) = inputs_meta s
   \<and> outputs_meta (snd (run C s ns feed ro)) = outputs_meta s
   \<and> model_meta (snd (run C s ns feed ro)) = model_meta s"
  by (simp add: run_def Let_def split: prod.splits sum.splits)

lemma end_profiling_keeps_snapshots:
  "inputs_meta (snd (end_profiling C s)) = inputs_meta s
   \<and> outputs_meta (snd (end_profiling C s)) = outputs_meta s
   \<and> model_meta (snd (end_profiling C s)) = model_meta s"
  by (simp add: end_profiling_def split: prod.splits sum.splits)

lemma perform_keeps_snapshots:
  "inputs_meta (snd (perform C s q)) = inputs_meta s
   \<and> outputs_meta (snd (perform C s q)) = outputs_meta s
   \<and> model_meta (snd (perform C s q)) = model_meta s"
  by (cases q) (simp_all add: split_beta run_keeps_snapshots end_profiling_keeps_snapshots)

lemma perform_all_keeps_snapshots:
  "inputs_meta (perform_all C s qs) = inputs_meta s
   \<and> outputs_meta (perform_all C s qs) = outputs_meta s
   \<and> model_meta (perform_all C s qs) = model_meta s"
proof (induction qs arbitrary: s)
  case Nil
  show ?case by simp
next
  case (Cons q qs)
  show ?case using Cons.IH [of "snd (perform C s q)"] perform_keeps_snapshots [of C s q]
    by simp
qed

lemma init_toy: "init toy (PStr ''model.onnx'') None = (Inr toy_session, sess toy_session)"
  by (simp add: init_def init_on_def new_sess_def toy_def sess_load_model_def
      sess_inputs_meta_def sess_outputs_meta_def sess_model_meta_def called_def raised_def
      toy_session_def)

section \<open>Properties of \<open>run\<close>\<close>

text \<open>
  Claim C1. On an instance whose cached input descriptors number \<open>N\<close>, \<open>run\<close> with a feed
  whose number of entries is not \<open>N\<close> raises the \<open>ValueError\<close> whose message names \<open>N\<close> and
  the size of the feed (by \<open>input_count_message_inject\<close> the message determines both), and
  leaves the instance as it was: the engine object has received no call, so none of its
  \<open>run\<close>.
\<close>

theorem run_input_count_mismatch:
  assumes "length input_feed \<noteq> length (inputs_meta s)"
  shows "run C s output_names input_feed run_options =
           (Inl (ValueError (''Model requires '' @ format_nat (length (inputs_meta s))
                   @ '' inputs. Input Feed contains '' @ format_nat (length input_feed))), s)
         \<and> calls (sess (snd (run C s output_names input_feed run_options))) = calls (sess s)"
  using assms by (simp add: run_def input_count_message_def)

theorem run_input_count_mismatch_witness:
  "length ([] :: (string \<times> int) list) \<noteq> length (inputs_meta toy_session)
   \<and> run toy toy_session None [] None =
       (Inl (ValueError ''Model requires 1 inputs. Input Feed contains 0''), toy_session)
   \<and> filter is_run (calls (sess (snd (run toy toy_session None [] None)))) = []"
  using run_input_count_mismatch [of "[] :: (string \<times> int) list" toy_session toy None None]
  by (simp add: toy_session_def toy_inputs_def format_nat.simps digit_def)

text \<open>
  Claim C2. For every instance and feed, \<open>run\<close> with \<open>output_names\<close> omitted (\<open>None\<close>) or
  empty gives the same outcome, and leaves the same instance, as \<open>run\<close> with the names of
  the cached output descriptors in their declared order.
\<close>

theorem run_default_output_names:
  "run C s None input_feed run_options =
     run C s (Some (map name (outputs_meta s))) input_feed run_options
   \<and> run C s (Some []) input_feed run_options =
     run C s (Some (map name (outputs_meta s))) input_feed run_options"
  unfolding run_def by (simp only: resolve_output_names_all resolve_output_names.simps)

theorem run_default_output_names_witness:
  "run toy toy_session None [(''x'', 5)] None = run toy toy_session (Some [''y'', ''z'']) [(''x'', 5)] None
   \<and> run toy toy_session (Some []) [(''x'', 5)] None = run toy toy_session (Some [''y'', ''z'']) [(''x'', 5)] None
   \<and> fst (run toy toy_session None [(''x'', 5)] None) = Inr [5, 10]"
  using run_default_output_names [of toy toy_session "[(''x'', 5)]" None]
  by (simp add: toy_session_def toy_outputs_def toy_inputs_def run_def sess_run_def toy_def
      toy_output_def called_def)

text \<open>
  Claim C3. When the feed has as many entries as there are cached input descriptors,
  whatever its keys are, \<open>run\<close> raises nothing of its own: the engine object receives one
  more call, its \<open>run\<close> with the resolved output names, the feed as given and the run
  options, and the outcome of \<open>run\<close> is the engine's. The names of the feed are not looked
  at.
\<close>

theorem run_delegates_on_equal_count:
  assumes "length input_feed = length (inputs_meta s)"
  shows "calls (sess (snd (run C s output_names input_feed run_options))) =
           calls (sess s) @ [Run (resolve_output_names (outputs_meta s) output_names) input_feed run_options]
         \<and> fst (run C s output_names input_feed run_options) =
           map_sum EngineError id
             (fst (C_run C (resolve_output_names (outputs_meta s) output_names) input_feed
                     run_options (state (sess s))))"
  using assms
  by (simp add: run_def sess_run_def called_def split: prod.splits sum.splits)

theorem run_delegates_on_equal_count_witness:
  "length [(''w'', 5 :: int)] = length (inputs_meta toy_session)
   \<and> ''w'' \<notin> set (map name (inputs_meta toy_session))
   \<and> calls (sess (snd (run toy toy_session None [(''w'', 5)] None))) =
        calls (sess toy_session) @ [Run [''y'', ''z''] [(''w'', 5)] None]
   \<and> fst (run toy toy_session None [(''w'', 5)] None) = Inl (EngineError ''invalid feed input name'')"
  using run_delegates_on_equal_count [of "[(''w'', 5 :: int)]" toy_session toy None None]
  by (simp add: toy_session_def toy_outputs_def toy_inputs_def toy_def)

text \<open>
  Claim C7. When the feed has the declared size and the engine's \<open>run\<close> returns a result,
  \<open>run\<close> returns that result as it is, and the engine has received that one call. The
  engine's \<open>run\<close> is applied to the feed and the run options as given and to the resolved
  output names: the names of the cached output descriptors, in their order, when
  \<open>output_names\<close> is \<open>None\<close> or empty, and the requested names as given otherwise.
\<close>

theorem run_returns_engine_result:
  assumes "length input_feed = length (inputs_meta s)"
  shows "(C_run C (map name (outputs_meta s)) input_feed run_options (state (sess s)) = (Inr res, e)
            \<longrightarrow>
          run C s None input_feed run_options =
            (Inr res,
             s\<lparr>sess := \<lparr>state = e,
                         calls = calls (sess s)
                           @ [Run (map name (outputs_meta s)) input_feed run_options]\<rparr>\<rparr>)
          \<and> run C s (Some []) input_feed run_options =
            (Inr res,
             s\<lparr>sess := \<lparr>state = e,
                         calls = calls (sess s)
                           @ [Run (map name (outputs_meta s)) input_feed run_options]\<rparr>\<rparr>))
         \<and> (C_run C (n # ns) input_feed run_options (state (sess s)) = (Inr res', e')
            \<longrightarrow>
          run C s (Some (n # ns)) input_feed run_options =
            (Inr res',
             s\<lparr>sess := \<lparr>state = e',
                         calls = calls (sess s) @ [Run (n # ns) input_feed run_options]\<rparr>\<rparr>))"
  using assms by (simp add: run_def sess_run_def called_def)

theorem run_returns_engine_result_witness:
  "length [(''x'', 5 :: int)] = length (inputs_meta toy_session)
   \<and> C_run toy (map name (outputs_meta toy_session)) [(''x'', 5)] None (state (sess toy_session))
       = (Inr [5, 10], 1)
   \<and> fst (run toy toy_session None [(''x'', 5)] None) = Inr [5, 10]
   \<and> fst (run toy toy_session (Some []) [(''x'', 5)] None) = Inr [5, 10]
   \<and> calls (sess (snd (run toy toy_session None [(''x'', 5)] None))) =
       calls (sess toy_session) @ [Run [''y'', ''z''] [(''x'', 5)] None]
   \<and> C_run toy [''z''] [(''x'', 5)] None (state (sess toy_session)) = (Inr [10], 1)
   \<and> fst (run toy toy_session (Some [''z'']) [(''x'', 5)] None) = Inr [10]
   \<and> calls (sess (snd (run toy toy_session (Some [''z'']) [(''x'', 5)] None))) =
       calls (sess toy_session) @ [Run [''z''] [(''x'', 5)] None]"
proof -
  have n: "length [(''x'', 5 :: int)] = length (inputs_meta toy_session)"
    by (simp add: toy_session_def toy_inputs_def)
  have a: "C_run toy (map name (outputs_meta toy_session)) [(''x'', 5)] None
             (state (sess toy_session)) = (Inr [5, 10], 1)"
    by (simp add: toy_def toy_session_def toy_outputs_def toy_output_def)
  have b: "C_run toy [''z''] [(''x'', 5)] None (state (sess toy_session)) = (Inr [10], 1)"
    by (simp add: toy_def toy_session_def toy_output_def)
  from n a b
    run_returns_engine_result [OF n, of toy None "[5, 10]" 1 "''z''" "[]" "[10]" 1]
  show ?thesis by (simp add: toy_session_def toy_outputs_def)
qed

section \<open>Properties of the constructor\<close>

text \<open>
  Claim C4. When \<open>path_or_bytes\<close> is an instance of none of \<open>str\<close>, \<open>bytes\<close> and \<open>tuple\<close>,
  the constructor raises the \<open>TypeError\<close> whose message shows the class of the value
  received, and the engine object it built has received no call, so no load.
\<close>

theorem init_unsupported_source:
  assumes "\<not> isinstance path_or_bytes str_c"
    and "\<not> isinstance path_or_bytes bytes_c"
    and "\<not> isinstance path_or_bytes tuple_c"
  shows "init C path_or_bytes sess_options =
           (Inl (TypeError (''Unable to load from type '' @ [CHR 0x27]
                   @ format_class (type_of path_or_bytes) @ [CHR 0x27])),
            new_sess C sess_options)
         \<and> calls (snd (init C path_or_bytes sess_options)) = []"
  using assms
  by (cases path_or_bytes)
     (simp_all add: init_def init_on_def isinstance_def unable_to_load_def new_sess_def
        split: option.splits)

theorem init_unsupported_source_witness:
  "\<not> isinstance (PInt 5) str_c \<and> \<not> isinstance (PInt 5) bytes_c \<and> \<not> isinstance (PInt 5) tuple_c
   \<and> fst (init toy (PInt 5) None) =
        Inl (TypeError (''Unable to load from type '' @ [CHR 0x27] @ ''<class '' @ [CHR 0x27]
               @ ''int'' @ [CHR 0x27] @ ''>'' @ [CHR 0x27]))
   \<and> calls (snd (init toy (PInt 5) None)) = []"
  using init_unsupported_source [of "PInt 5" toy None]
  by (simp add: isinstance_def format_class_def new_sess_def)

text \<open>
  Claim C5. The constructor dispatches on the class of \<open>path_or_bytes\<close>: for a string the
  one load call the engine receives is \<open>load_model\<close> with that string, for a byte string
  \<open>read_bytes\<close> with those bytes, and for a tuple that holds a token \<open>load_model_no_init\<close>
  with the token.
\<close>

theorem init_dispatch:
  "filter is_load (calls (snd (init C (PStr p) sess_options))) = [Load_model p]
   \<and> filter is_load (calls (snd (init C (PBytes b) sess_options))) = [Read_bytes b]
   \<and> filter is_load (calls (snd (init C (PTuple (t # ts)) sess_options))) = [Load_model_no_init t]"
proof -
  let ?h0 = "new_sess C sess_options"
  have a: "filter is_load (calls (snd (init C (PStr p) sess_options))) = [Load_model p]"
    unfolding init_def
    by (subst loads_of_init_on [OF surjective_pairing calls_new_sess])
       (simp add: sess_load_model_def called_def calls_new_sess split: prod.splits)
  have b: "filter is_load (calls (snd (init C (PBytes b) sess_options))) = [Read_bytes b]"
    unfolding init_def
    by (subst loads_of_init_on [OF surjective_pairing calls_new_sess])
       (simp add: sess_read_bytes_def called_def calls_new_sess split: prod.splits)
  have c: "filter is_load (calls (snd (init C (PTuple (t # ts)) sess_options))) = [Load_model_no_init t]"
    unfolding init_def
    by (subst loads_of_init_on [OF surjective_pairing calls_new_sess])
       (simp add: sess_load_model_no_init_def called_def calls_new_sess split: prod.splits)
  from a b c show ?thesis by simp
qed

theorem init_dispatch_witness:
  "calls (snd (init toy (PStr ''model.onnx'') None)) =
     [Load_model ''model.onnx'', Inputs_meta, Outputs_meta, Model_meta]
   \<and> calls (snd (init toy (PBytes [8, 1]) None)) =
     [Read_bytes [8, 1], Inputs_meta, Outputs_meta, Model_meta]
   \<and> calls (snd (init toy (PTuple [PObj ''ModelProto'' 1]) None)) =
     [Load_model_no_init (PObj ''ModelProto'' 1), Inputs_meta, Outputs_meta, Model_meta]
   \<and> filter is_load (calls (snd (init toy (PStr ''model.onnx'') None))) = [Load_model ''model.onnx'']
   \<and> filter is_load (calls (snd (init toy (PBytes [8, 1]) None))) = [Read_bytes [8, 1]]
   \<and> filter is_load (calls (snd (init toy (PTuple [PObj ''ModelProto'' 1]) None))) =
        [Load_model_no_init (PObj ''ModelProto'' 1)]"
  using init_dispatch [of toy "''model.onnx''" None "[8, 1]" "PObj ''ModelProto'' 1" "[]"]
  by (simp add: init_def init_on_def new_sess_def toy_def sess_load_model_def sess_read_bytes_def
      sess_load_model_no_init_def sess_inputs_meta_def sess_outputs_meta_def sess_model_meta_def
      called_def raised_def)

text \<open>
  Claim C9, as amended. Line 24 tests the truth of \<open>sess_options\<close>, not its presence. For
  every call of the constructor, when session options are given and are true under
  Python's truth test, the engine object is built by \<open>C.InferenceSession\<close> from those
  options; when they are absent, or given but false under that test, it is built from the
  session initializer alone, the engine's defaults. The rest of the constructor works on
  the engine object so built.
\<close>

theorem engine_built_from_true_options:
  "(options_truth C so \<longrightarrow>
      init C path_or_bytes (Some so) =
        init_on C path_or_bytes
          \<lparr>state = C_InferenceSession C (Inl so) (C_get_session_initializer C), calls = []\<rparr>)
   \<and> (\<not> options_truth C so \<longrightarrow>
      init C path_or_bytes (Some so) =
        init_on C path_or_bytes
          \<lparr>state = C_InferenceSession C (Inr (C_get_session_initializer C))
                     (C_get_session_initializer C),
           calls = []\<rparr>)
   \<and> init C path_or_bytes None =
       init_on C path_or_bytes
         \<lparr>state = C_InferenceSession C (Inr (C_get_session_initializer C))
                    (C_get_session_initializer C),
          calls = []\<rparr>"
  by (simp add: init_def new_sess_def)

theorem engine_built_from_true_options_witness:
  "options_truth toy 4
   \<and> init toy (PStr ''model.onnx'') (Some 4) =
       init_on toy (PStr ''model.onnx'') \<lparr>state = C_InferenceSession toy (Inl 4) (), calls = []\<rparr>
   \<and> state (snd (init toy (PStr ''model.onnx'') (Some 4))) = 5
   \<and> \<not> options_truth toy 0
   \<and> init toy (PInt 7) (Some 0) =
       init_on toy (PInt 7) \<lparr>state = C_InferenceSession toy (Inr ()) (), calls = []\<rparr>
   \<and> state (snd (init toy (PStr ''model.onnx'') (Some 0))) = 0
   \<and> state (snd (init toy (PStr ''model.onnx'') None)) = 0"
  using engine_built_from_true_options [of toy 4 "PStr ''model.onnx''"]
    engine_built_from_true_options [of toy 0 "PStr ''model.onnx''"]
    engine_built_from_true_options [of toy 0 "PInt 7"]
  by (simp add: init_on_def toy_def sess_load_model_def sess_inputs_meta_def
      sess_outputs_meta_def sess_model_meta_def called_def raised_def)

text \<open>
  Claim C9 as first stated, that the engine is built from the options whenever options are
  given, fails at a thread count of zero: the value is given, it is false, and the engine
  is built from the initializer.
\<close>

theorem engine_built_from_options_counterexample:
  "options_truth toy 0 = False
   \<and> init toy (PStr ''model.onnx'') (Some 0) \<noteq>
       init_on toy (PStr ''model.onnx'')
         \<lparr>state = C_InferenceSession toy (Inl 0) (C_get_session_initializer toy), calls = []\<rparr>
   \<and> init toy (PStr ''model.onnx'') (Some 0) =
       init_on toy (PStr ''model.onnx'')
         \<lparr>state = C_InferenceSession toy (Inr (C_get_session_initializer toy))
                    (C_get_session_initializer toy),
          calls = []\<rparr>
   \<and> state (snd (init toy (PStr ''model.onnx'') (Some 0))) = 0
   \<and> C_InferenceSession toy (Inl 0) (C_get_session_initializer toy) = 1"
  by (simp add: init_def new_sess_def init_on_def toy_def sess_load_model_def
      sess_inputs_meta_def sess_outputs_meta_def sess_model_meta_def called_def raised_def)

text \<open>
  Claim C10. Every tuple is taken as the token variant: of a tuple with elements only the
  first one reaches the engine, as the argument of \<open>load_model_no_init\<close>, and the other
  elements play no part; the empty tuple is not refused with a \<open>TypeError\<close> but raises the
  \<open>IndexError\<close> of the index 0, before any call of the engine.
\<close>

theorem tuple_source:
  "isinstance (PTuple ts) tuple_c
   \<and> init C (PTuple (t # ts)) sess_options = init C (PTuple [t]) sess_options
   \<and> filter is_load (calls (snd (init C (PTuple (t # ts)) sess_options))) = [Load_model_no_init t]
   \<and> init C (PTuple []) sess_options =
       (Inl (IndexError ''tuple index out of range''), new_sess C sess_options)
   \<and> calls (snd (init C (PTuple []) sess_options)) = []"
proof -
  have "filter is_load (calls (snd (init C (PTuple (t # ts)) sess_options))) = [Load_model_no_init t]"
    by (simp add: init_def init_on_def sess_load_model_no_init_def called_def calls_new_sess
        raised_def sess_inputs_meta_def sess_outputs_meta_def sess_model_meta_def
        split: prod.splits option.splits)
  then show ?thesis
    by (simp add: isinstance_def init_def init_on_def calls_new_sess)
qed

theorem tuple_source_witness:
  "calls (snd (init toy (PTuple [PInt 1, PInt 2]) None)) =
     [Load_model_no_init (PInt 1), Inputs_meta, Outputs_meta, Model_meta]
   \<and> init toy (PTuple [PInt 1, PInt 2]) None = init toy (PTuple [PInt 1]) None
   \<and> init toy (PTuple []) None =
       (Inl (IndexError ''tuple index out of range''), \<lparr>state = 0, calls = []\<rparr>)"
  using tuple_source [of "[PInt 2]" toy "PInt 1" None]
  by (simp add: init_def init_on_def new_sess_def toy_def sess_load_model_no_init_def
      sess_inputs_meta_def sess_outputs_meta_def sess_model_meta_def called_def raised_def)

section \<open>The cached snapshots\<close>

text \<open>
  Claim C6. When the constructor returns, the three cached attributes are what the engine
  reports in the state the load left it in; after any sequence of calls of the five
  methods they are still the same, and each accessor returns the cached value and leaves
  the instance, with the calls its engine object has received, as it was.
\<close>

theorem snapshots_fixed:
  assumes "init C path_or_bytes sess_options = (Inr s, h)"
  shows "inputs_meta s = C_inputs_meta C (state h)
         \<and> outputs_meta s = C_outputs_meta C (state h)
         \<and> model_meta s = C_model_meta C (state h)
         \<and> inputs_meta (perform_all C s qs) = inputs_meta s
         \<and> outputs_meta (perform_all C s qs) = outputs_meta s
         \<and> model_meta (perform_all C s qs) = model_meta s
         \<and> perform C (perform_all C s qs) Get_inputs =
             (Inr (Descriptors (inputs_meta s)), perform_all C s qs)
         \<and> perform C (perform_all C s qs) Get_outputs =
             (Inr (Descriptors (outputs_meta s)), perform_all C s qs)
         \<and> perform C (perform_all C s qs) Get_modelmeta =
             (Inr (Metadata (model_meta s)), perform_all C s qs)"
  using init_on_snapshots [of C path_or_bytes "new_sess C sess_options" s h] assms
    perform_all_keeps_snapshots [of C s qs]
  by (simp add: init_def get_inputs_def get_outputs_def get_modelmeta_def)

theorem snapshots_fixed_witness:
  "init toy (PStr ''model.onnx'') None = (Inr toy_session, sess toy_session)
   \<and> inputs_meta toy_session = toy_inputs
   \<and> inputs_meta (perform_all toy toy_session
        [Run_request None [(''x'', 5)] None, Get_inputs, End_profiling_request]) = toy_inputs
   \<and> state (sess (perform_all toy toy_session
        [Run_request None [(''x'', 5)] None, Get_inputs, End_profiling_request])) = 1
   \<and> fst (perform toy (perform_all toy toy_session
        [Run_request None [(''x'', 5)] None, Get_inputs, End_profiling_request]) Get_outputs) =
        Inr (Descriptors toy_outputs)"
  using snapshots_fixed [OF init_toy,
      of "[Run_request None [(''x'', 5)] None, Get_inputs, End_profiling_request]"]
    init_toy
  by (simp add: toy_session_def run_def end_profiling_def sess_run_def sess_end_profiling_def
      toy_def called_def toy_inputs_def toy_outputs_def)

section \<open>Failures of the engine\<close>

text \<open>
  Claim C8. Whatever the engine raises in a load, in \<open>run\<close> or in \<open>end_profiling\<close> is what
  the caller gets, unchanged; the engine has then received that one call and no second
  one, and a \<open>run\<close> that fails gives the exception and no result.
\<close>

theorem engine_failures_propagate:
  "(C_load_model C p (state (new_sess C sess_options)) = (Some x1, e1) \<longrightarrow>
      init C (PStr p) sess_options =
        (Inl (EngineError x1), \<lparr>state = e1, calls = [Load_model p]\<rparr>))
   \<and> (C_read_bytes C b (state (new_sess C sess_options)) = (Some x2, e2) \<longrightarrow>
      init C (PBytes b) sess_options =
        (Inl (EngineError x2), \<lparr>state = e2, calls = [Read_bytes b]\<rparr>))
   \<and> (C_load_model_no_init C t (state (new_sess C sess_options)) = (Some x3, e3) \<longrightarrow>
      init C (PTuple (t # ts)) sess_options =
        (Inl (EngineError x3), \<lparr>state = e3, calls = [Load_model_no_init t]\<rparr>))
   \<and> (length input_feed = length (inputs_meta s)
        \<and> C_run C (resolve_output_names (outputs_meta s) output_names) input_feed run_options
             (state (sess s)) = (Inl x4, e4) \<longrightarrow>
      run C s output_names input_feed run_options =
        (Inl (EngineError x4),
         s\<lparr>sess := \<lparr>state = e4,
                     calls = calls (sess s)
                       @ [Run (resolve_output_names (outputs_meta s) output_names) input_feed
                            run_options]\<rparr>\<rparr>))
   \<and> (C_end_profiling C (state (sess s)) = (Inl x5, e5) \<longrightarrow>
      end_profiling C s =
        (Inl (EngineError x5), s\<lparr>sess := \<lparr>state = e5, calls = calls (sess s) @ [End_profiling]\<rparr>\<rparr>))"
  by (simp add: init_def init_on_def sess_load_model_def sess_read_bytes_def
      sess_load_model_no_init_def called_def raised_def calls_new_sess run_def sess_run_def
      end_profiling_def sess_end_profiling_def)

theorem engine_failures_propagate_witness:
  "C_load_model toy ''m.onnx'' (state (new_sess toy None)) = (Some ''no such file'', 0)
   \<and> init toy (PStr ''m.onnx'') None =
       (Inl (EngineError ''no such file''), \<lparr>state = 0, calls = [Load_model ''m.onnx'']\<rparr>)
   \<and> C_read_bytes toy [] (state (new_sess toy None)) = (Some ''empty model'', 0)
   \<and> init toy (PBytes []) None =
       (Inl (EngineError ''empty model''), \<lparr>state = 0, calls = [Read_bytes []]\<rparr>)
   \<and> C_load_model_no_init toy PNone (state (new_sess toy None)) = (Some ''not a model'', 0)
   \<and> init toy (PTuple [PNone]) None =
       (Inl (EngineError ''not a model''), \<lparr>state = 0, calls = [Load_model_no_init PNone]\<rparr>)
   \<and> length [(''w'', 5 :: int)] = length (inputs_meta toy_session)
   \<and> C_run toy (resolve_output_names (outputs_meta toy_session) None) [(''w'', 5)] None
        (state (sess toy_session)) = (Inl ''invalid feed input name'', 0)
   \<and> fst (run toy toy_session None [(''w'', 5)] None) = Inl (EngineError ''invalid feed input name'')
   \<and> calls (sess (snd (run toy toy_session None [(''w'', 5)] None))) =
       calls (sess toy_session) @ [Run [''y'', ''z''] [(''w'', 5)] None]
   \<and> C_end_profiling toy (state (sess toy_session)) = (Inl ''profiling is not enabled'', 0)
   \<and> fst (end_profiling toy toy_session) = Inl (EngineError ''profiling is not enabled'')
   \<and> calls (sess (snd (end_profiling toy toy_session))) = calls (sess toy_session) @ [End_profiling]"
  using engine_failures_propagate [of toy "''m.onnx''" None "''no such file''" 0
      "[]" "''empty model''" 0 PNone "''not a model''" 0 "[]" "[(''w'', 5)]" toy_session None None
      "''invalid feed input name''" 0 "''profiling is not enabled''" 0]
  by (simp add: toy_def new_sess_def toy_session_def toy_inputs_def toy_outputs_def)

end
